theory Spec2Isabelle
  imports Main "HOL-Library.Char_ord" "HOL-Library.List_Lexorder" "HOL-Library.AList"
begin

section \<open>Python strings and POSIX paths\<close>

text \<open>
  A Python \<open>str\<close> is a \<open>string\<close>. With the character order of \<open>Char_ord\<close> and the
  lexicographic order of \<open>List_Lexorder\<close>, \<open>sort\<close> on strings is Python's \<open>sorted\<close>:
  code point by code point, a proper prefix first.
\<close>

definition startswith :: "string \<Rightarrow> string \<Rightarrow> bool" where
  "startswith s p = (take (length p) s = p)"

definition endswith :: "string \<Rightarrow> string \<Rightarrow> bool" where
  "endswith s p = (length p \<le> length s \<and> drop (length s - length p) s = p)"

text \<open>\<open>posixpath.join\<close> with two arguments.\<close>

definition os_path_join :: "string \<Rightarrow> string \<Rightarrow> string" where
  "os_path_join a b =
     (if startswith b ''/'' then b
      else if a = [] \<or> endswith a ''/'' then a @ b
      else a @ ''/'' @ b)"

text \<open>
  \<open>posixpath.split\<close>: the tail is what follows the last slash; the head is what
  precedes it, without its trailing slashes unless it consists of slashes only.
\<close>

definition rstrip_sep :: "string \<Rightarrow> string" where
  "rstrip_sep s = rev (dropWhile (\<lambda>c. c = CHR ''/'') (rev s))"

definition os_path_split :: "string \<Rightarrow> string \<times> string" where
  "os_path_split p =
     (let tail = rev (takeWhile (\<lambda>c. c \<noteq> CHR ''/'') (rev p));
          head = take (length p - length tail) p
      in (if head \<noteq> [] \<and> head \<noteq> replicate (length head) CHR ''/''
          then rstrip_sep head else head, tail))"

definition os_path_dirname :: "string \<Rightarrow> string" where
  "os_path_dirname p = fst (os_path_split p)"

definition os_path_basename :: "string \<Rightarrow> string" where
  "os_path_basename p = snd (os_path_split p)"

section \<open>Exceptions\<close>

text \<open>
  The exceptions a run can meet. The subclasses of \<open>OSError\<close> carry the path they are
  about; the others carry their message. \<open>str_exn\<close> is \<open>str(e)\<close>.
\<close>

datatype oserror =
    FileExistsError string
  | FileNotFoundError string
  | NotADirectoryError string
  | IsADirectoryError string

datatype exn =
    ValueError string
  | ParserError string
  | TypeError string
  | BadZipFile string
  | InvalidFileException string
  | KeyError string
  | OSError oserror

definition quoted :: "string \<Rightarrow> string" where
  "quoted s = [CHR 0x27] @ s @ [CHR 0x27]"

fun str_oserror :: "oserror \<Rightarrow> string" where
  "str_oserror (FileExistsError p) = ''[Errno 17] File exists: '' @ quoted p"
| "str_oserror (FileNotFoundError p) = ''[Errno 2] No such file or directory: '' @ quoted p"
| "str_oserror (NotADirectoryError p) = ''[Errno 20] Not a directory: '' @ quoted p"
| "str_oserror (IsADirectoryError p) = ''[Errno 21] Is a directory: '' @ quoted p"

fun str_exn :: "exn \<Rightarrow> string" where
  "str_exn (ValueError m) = m"
| "str_exn (ParserError m) = m"
| "str_exn (TypeError m) = m"
| "str_exn (BadZipFile m) = m"
| "str_exn (InvalidFileException m) = m"
| "str_exn (KeyError m) = quoted m"
| "str_exn (OSError e) = str_oserror e"

section \<open>Spreadsheets and the file system\<close>

text \<open>
  A cell value as \<open>iter_rows(values_only=True)\<close> yields it and as a data frame holds it:
  \<open>Blank\<close> is \<open>None\<close> for openpyxl and \<open>NaN\<close> for pandas.
\<close>

datatype cell = Blank | Text string | Number int

record sheet =
  title :: string
  iter_rows :: "cell list list"

datatype content = Workbook "sheet list" | Csv "cell list list" | Garbage

datatype node = Dir | File content

text \<open>
  The file system maps a path string to a node; the order of the list is the order in
  which a directory scan meets the entries.
\<close>

type_synonym filesystem = "(string \<times> node) list"

definition os_path_exists :: "filesystem \<Rightarrow> string \<Rightarrow> bool" where
  "os_path_exists fs p = (map_of fs p \<noteq> None)"

definition os_path_isdir :: "filesystem \<Rightarrow> string \<Rightarrow> bool" where
  "os_path_isdir fs p = (map_of fs p = Some Dir)"

definition os_path_isfile :: "filesystem \<Rightarrow> string \<Rightarrow> bool" where
  "os_path_isfile fs p = (case map_of fs p of Some (File c) \<Rightarrow> True | _ \<Rightarrow> False)"

text \<open>
  The immediate children of \<open>d\<close>: the entries whose path is \<open>d\<close> joined with their
  own last component.
\<close>

definition scandir :: "filesystem \<Rightarrow> string \<Rightarrow> (string \<times> node) list" where
  "scandir fs d =
     map (\<lambda>e. (os_path_basename (fst e), snd e))
       (filter (\<lambda>e. os_path_basename (fst e) \<noteq> []
                     \<and> os_path_join d (os_path_basename (fst e)) = fst e) fs)"

text \<open>
  The first triple \<open>(root, dirs, files)\<close> that \<open>os.walk(d)\<close> yields; it yields nothing
  when \<open>d\<close> is not a directory (the scan error is ignored).
\<close>

definition os_walk_top :: "filesystem \<Rightarrow> string \<Rightarrow> (string \<times> string list \<times> string list) option" where
  "os_walk_top fs d =
     (if os_path_isdir fs d
      then Some (d,
                 map fst (filter (\<lambda>e. snd e = Dir) (scandir fs d)),
                 map fst (filter (\<lambda>e. snd e \<noteq> Dir) (scandir fs d)))
      else None)"

section \<open>Data frames\<close>

record frame =
  columns :: "cell list"
  rows :: "cell list list"

text \<open>Decimal numerals, as \<open>str\<close> writes an \<open>int\<close>.\<close>

fun str_nat :: "nat \<Rightarrow> string" where
  "str_nat n =
     (if n < 10 then [char_of (48 + n)]
      else str_nat (n div 10) @ [char_of (48 + n mod 10)])"

declare str_nat.simps [simp del]

definition str_int :: "int \<Rightarrow> string" where
  "str_int i = (if i < 0 then ''-'' @ str_nat (nat (- i)) else str_nat (nat i))"

definition is_text :: "cell \<Rightarrow> bool" where
  "is_text c = (case c of Text s \<Rightarrow> True | _ \<Rightarrow> False)"

definition is_number :: "cell \<Rightarrow> bool" where
  "is_number c = (case c of Number n \<Rightarrow> True | _ \<Rightarrow> False)"

text \<open>
  The rows pandas takes from a sheet (\<open>get_sheet_data\<close> of its openpyxl reader). An
  empty cell (\<open>None\<close>, or the empty text) is the empty value, here \<open>Blank\<close>. Every row
  loses its trailing empty cells, the rows after the last row that keeps a cell are
  dropped, and the rows that remain are filled with empty cells to the width of the
  widest.
\<close>

definition convert_cell :: "cell \<Rightarrow> cell" where
  "convert_cell c = (if c = Text [] then Blank else c)"

definition get_sheet_data :: "sheet \<Rightarrow> cell list list" where
  "get_sheet_data s =
     (let converted = map (\<lambda>row. rev (dropWhile (\<lambda>c. c = Blank) (rev (map convert_cell row))))
                        (iter_rows s);
          data = rev (dropWhile (\<lambda>row. row = []) (rev converted));
          max_width = fold max (map length data) 0
      in map (\<lambda>data_row. data_row @ replicate (max_width - length data_row) Blank) data)"

text \<open>
  The parser skips blank lines: a line is kept when it has more than one cell, or one
  cell that is not a text of white space only.
\<close>

definition isspace :: "char \<Rightarrow> bool" where
  "isspace c = (of_char c \<in> set [9, 10, 11, 12, 13, 28, 29, 30, 31, 32, 133, 160 :: nat])"

definition keeps_line :: "cell list \<Rightarrow> bool" where
  "keeps_line line =
     (length line > 1
      \<or> length line = 1
        \<and> (case hd line of Blank \<Rightarrow> False | Text s \<Rightarrow> \<not> list_all isspace s | Number n \<Rightarrow> True))"

text \<open>
  The column labels pandas makes of the header row. An empty header cell at position
  \<open>i\<close> is named \<open>Unnamed: i\<close>. Then the labels are made distinct, the named columns
  first and the unnamed ones after them: a label met before gets the suffix \<open>.k\<close>, with
  \<open>k\<close> the number of times it was met, raised until the suffixed label is not among the
  columns. (The search for \<open>k\<close> is the \<open>while\<close> loop of pandas; it ends within as many
  steps as there are columns, because the suffixed labels of different \<open>k\<close> differ.)
\<close>

definition suffixed :: "cell \<Rightarrow> nat \<Rightarrow> cell" where
  "suffixed old_col k =
     Text ((case old_col of Text s \<Rightarrow> s | Number n \<Rightarrow> str_int n | Blank \<Rightarrow> []) @ ''.'' @ str_nat k)"

definition dedup_step :: "nat \<Rightarrow> cell list \<times> (cell \<Rightarrow> nat) \<Rightarrow> cell list \<times> (cell \<Rightarrow> nat)" where
  "dedup_step i s =
     (let this_columns = fst s;
          counts = snd s;
          old_col = this_columns ! i;
          cur_count = counts old_col
      in if cur_count > 0 then
           (case find (\<lambda>k. suffixed old_col k \<notin> set this_columns)
                   [cur_count ..< cur_count + length this_columns + 1] of
              Some k \<Rightarrow>
                (this_columns[i := suffixed old_col k],
                 counts(old_col := k + 1, suffixed old_col k := 1))
            | None \<Rightarrow> s)
         else (this_columns, counts(old_col := 1)))"

definition infer_columns :: "cell list \<Rightarrow> cell list" where
  "infer_columns header_row =
     (let this_unnamed_cols = filter (\<lambda>i. header_row ! i = Blank) [0 ..< length header_row];
          this_columns = map (\<lambda>i. if header_row ! i = Blank then Text (''Unnamed: '' @ str_nat i)
                                    else header_row ! i) [0 ..< length header_row];
          col_loop_order = filter (\<lambda>i. header_row ! i \<noteq> Blank) [0 ..< length header_row]
                             @ this_unnamed_cols
      in fst (fold dedup_step col_loop_order (this_columns, \<lambda>c. 0)))"

text \<open>
  The \<open>usecols\<close> argument. A list of texts names the columns to read; a list of
  integers gives their positions, and a position beyond the last column raises; any
  other list is refused when the parser is set up. The columns come in the order of
  the file whatever the order of the list. The result is the list of the positions
  read.
\<close>

definition usecols_valid :: "cell list \<Rightarrow> bool" where
  "usecols_valid usecols = (list_all is_text usecols \<or> list_all is_number usecols)"

definition repr_list :: "string list \<Rightarrow> string" where
  "repr_list items =
     ''['' @ (case items of [] \<Rightarrow> [] | x # xs \<Rightarrow> x @ concat (map (\<lambda>y. '', '' @ y) xs)) @ '']''"

definition handle_usecols :: "cell list \<Rightarrow> cell list \<Rightarrow> exn + nat list" where
  "handle_usecols usecols names =
     (if list_ex is_text usecols then
        (if list_all (\<lambda>c. c \<in> set names) usecols
         then Inr (filter (\<lambda>i. names ! i \<in> set usecols) [0 ..< length names])
         else Inl (ValueError
                (''Usecols do not match columns, columns expected but not found: ''
                 @ repr_list (map (\<lambda>c. case c of Text s \<Rightarrow> quoted s | _ \<Rightarrow> [])
                                (filter (\<lambda>c. c \<notin> set names) usecols)))))
      else
        (if list_ex (\<lambda>c. case c of Number n \<Rightarrow> int (length names) \<le> n | _ \<Rightarrow> False) usecols
         then Inl (ParserError
                (''Defining usecols with out-of-bounds indices is not allowed. ''
                 @ repr_list (map (\<lambda>c. case c of Number n \<Rightarrow> str_int n | _ \<Rightarrow> [])
                                (filter (\<lambda>c. case c of Number n \<Rightarrow> int (length names) \<le> n
                                                | _ \<Rightarrow> False) usecols))
                 @ '' are out-of-bounds.''))
         else Inr (filter (\<lambda>i. Number (int i) \<in> set usecols) [0 ..< length names])))"

text \<open>
  The texts that pandas reads as a missing value in a data cell, and the parser on the
  rows of a sheet: the first line kept gives the labels, the lines below it the data.
  A frame without columns has no rows. When no line is kept the parser raises
  \<open>EmptyDataError\<close>, which \<open>read_excel\<close> answers with an empty frame.

  Outside this model: the type pandas infers for a column. It reads a column of texts
  that all spell numbers or truth values as numbers or truth values, and the whole
  numbers of a column with a missing value as floating-point numbers of the same value.
\<close>

definition na_values :: "string list" where
  "na_values = [''-1.#IND'', ''1.#QNAN'', ''1.#IND'', ''-1.#QNAN'', ''#N/A N/A'', ''#N/A'',
                ''N/A'', ''n/a'', ''NA'', ''<NA>'', ''#NA'', ''NULL'', ''null'', ''NaN'',
                ''-NaN'', ''nan'', ''-nan'', ''None'', []]"

definition na_cell :: "cell \<Rightarrow> cell" where
  "na_cell c = (case c of Text s \<Rightarrow> if s \<in> set na_values then Blank else c | _ \<Rightarrow> c)"

definition text_parser :: "cell list option \<Rightarrow> cell list list \<Rightarrow> exn + frame" where
  "text_parser usecols data =
     (if (case usecols of Some cols \<Rightarrow> \<not> usecols_valid cols | None \<Rightarrow> False) then
        Inl (ValueError
          (quoted ''usecols''
           @ '' must either be list-like of all strings, all unicode, all integers or a callable.''))
      else
        (case filter keeps_line data of
           [] \<Rightarrow> Inr \<lparr>columns = [], rows = []\<rparr>
         | header_row # lines \<Rightarrow>
             (case usecols of
                None \<Rightarrow>
                  Inr \<lparr>columns = infer_columns header_row, rows = map (map na_cell) lines\<rparr>
              | Some cols \<Rightarrow>
                  (case handle_usecols cols (infer_columns header_row) of
                     Inl e \<Rightarrow> Inl e
                   | Inr col_indices \<Rightarrow>
                       Inr \<lparr>columns = map (\<lambda>i. infer_columns header_row ! i) col_indices,
                            rows = (if col_indices = [] then []
                                    else map (\<lambda>line. map (\<lambda>i. na_cell (line ! i)) col_indices)
                                           lines)\<rparr>))))"

text \<open>
  \<open>pandas.read_excel(path)\<close> and \<open>pandas.read_excel(path, usecols=names)\<close> read the
  first sheet of the workbook. A sheet without any cell gives the empty frame before
  the parser is set up, so that \<open>usecols\<close> is not looked at.
\<close>

definition sheet_data :: "filesystem \<Rightarrow> string \<Rightarrow> exn + cell list list" where
  "sheet_data fs p =
     (case map_of fs p of
        None \<Rightarrow> Inl (OSError (FileNotFoundError p))
      | Some Dir \<Rightarrow> Inl (OSError (IsADirectoryError p))
      | Some (File (Workbook (s # ss))) \<Rightarrow> Inr (get_sheet_data s)
      | Some (File other) \<Rightarrow>
          Inl (ValueError ''Excel file format cannot be determined, you must specify an engine manually.''))"

definition parse :: "cell list option \<Rightarrow> cell list list \<Rightarrow> exn + frame" where
  "parse usecols data =
     (if data = [] then Inr \<lparr>columns = [], rows = []\<rparr> else text_parser usecols data)"

definition read_excel :: "filesystem \<Rightarrow> string \<Rightarrow> exn + frame" where
  "read_excel fs p =
     (case sheet_data fs p of Inl e \<Rightarrow> Inl e | Inr data \<Rightarrow> parse None data)"

definition read_excel_usecols :: "filesystem \<Rightarrow> string \<Rightarrow> cell list \<Rightarrow> exn + frame" where
  "read_excel_usecols fs p names =
     (case sheet_data fs p of Inl e \<Rightarrow> Inl e | Inr data \<Rightarrow> parse (Some names) data)"

text \<open>
  \<open>pandas.concat(frames, axis=0, ignore_index=True)\<close>: the rows of the frames one after
  the other. The columns are the labels of all frames in the order of their first
  occurrence; a frame that has exactly these columns keeps its rows as they are, any
  other frame is re-indexed, a label it lacks giving \<open>NaN\<close>.
\<close>

definition union_columns :: "frame list \<Rightarrow> cell list" where
  "union_columns dfs =
     (if list_all (\<lambda>df. columns df = columns (hd dfs)) dfs then columns (hd dfs)
      else rev (remdups (rev (concat (map columns dfs)))))"

definition reindex :: "cell list \<Rightarrow> cell list \<Rightarrow> cell list \<Rightarrow> cell list" where
  "reindex cols new_cols r =
     map (\<lambda>c. case map_of (zip cols r) c of Some v \<Rightarrow> v | None \<Rightarrow> Blank) new_cols"

definition pandas_concat :: "frame list \<Rightarrow> frame" where
  "pandas_concat dfs =
     (let cols = union_columns dfs
      in \<lparr>columns = cols,
          rows = concat (map (\<lambda>df. if columns df = cols then rows df
                                     else map (reindex (columns df) cols) (rows df)) dfs)\<rparr>)"

section \<open>merge_excel_files.py: merge_excel_data_in_path\<close>

text \<open>The logging helpers: \<open>print(f"({ctx})", *args)\<close> with one argument.\<close>

definition error :: "string \<Rightarrow> string" where
  "error msg = ''(EE) '' @ msg"

definition info :: "string \<Rightarrow> string" where
  "info msg = ''(--) '' @ msg"

text \<open>
  The state of the loop over the sorted files: the local variables \<open>frames\<close> and
  \<open>headers\<close>, and the lines printed so far (one entry for each call of \<open>print\<close>).
\<close>

record merge_state =
  frames :: "frame list"
  headers :: "cell list option"
  printed :: "string list"

text \<open>
  The body of the \<open>try\<close> for the file at index \<open>i\<close>. Every statement that can raise
  comes before the first assignment, so a raise leaves the state as it was.
\<close>

definition try_body :: "filesystem \<Rightarrow> nat \<Rightarrow> string \<Rightarrow> merge_state \<Rightarrow> exn + merge_state" where
  "try_body fs i file_with_path st =
     (if i = 0 then
        (case read_excel fs file_with_path of
           Inl e \<Rightarrow> Inl e
         | Inr initial_dataframe \<Rightarrow>
             Inr (st\<lparr>headers := Some (columns initial_dataframe),
                     printed := printed st @
                       [''Grabbing headers from first file...\<newline>'',
                        ''Wait for all merge operations to finish...\<newline>''],
                     frames := frames st @ [initial_dataframe]\<rparr>))
      else
        (case read_excel fs file_with_path of
           Inl e \<Rightarrow> Inl e
         | Inr temp_dataframe \<Rightarrow>
             (case headers st of
                None \<Rightarrow> Inl (TypeError ''object of type 'NoneType' has no len()'')
              | Some hs \<Rightarrow>
                  if \<not> take (length hs) (columns temp_dataframe) = hs
                  then Inl (ValueError (''Headers do not match for file: '' @ file_with_path))
                  else
                    (case read_excel_usecols fs file_with_path hs of
                       Inl e \<Rightarrow> Inl e
                     | Inr processed_dataframe \<Rightarrow>
                         Inr (st\<lparr>frames := frames st @ [processed_dataframe]\<rparr>)))))"

text \<open>The \<open>except Exception as e\<close> block: an empty line, then the error line.\<close>

definition except_block :: "string \<Rightarrow> exn \<Rightarrow> string list" where
  "except_block file_with_path e =
     [[], error (''Error while reading '' @ file_with_path @ '':\<newline>'' @ [CHR 0x09]
                   @ str_exn e @ ''\<newline>'')]"

definition appending_line :: "string \<Rightarrow> string" where
  "appending_line file_with_path =
     ''Appending data from file: '' @ quoted (os_path_basename file_with_path)"

definition merge_step :: "filesystem \<Rightarrow> nat \<times> string \<Rightarrow> merge_state \<Rightarrow> merge_state" where
  "merge_step fs ip st =
     (case try_body fs (fst ip) (snd ip) st of
        Inr st' \<Rightarrow>
          st'\<lparr>printed := printed st' @ [appending_line (snd ip)]\<rparr>
      | Inl e \<Rightarrow> st\<lparr>printed := printed st @ except_block (snd ip) e\<rparr>)"

text \<open>The files collected from the first triple of the walk, and their sorted list.\<close>

definition excel_files :: "filesystem \<Rightarrow> string \<Rightarrow> string list" where
  "excel_files fs folder_path =
     (case os_walk_top fs folder_path of
        None \<Rightarrow> []
      | Some (root, dirs, files) \<Rightarrow>
          map (os_path_join root)
            (filter (\<lambda>file_name. (endswith file_name ''.xlsx'' \<or> endswith file_name ''.xls'')
                                 \<and> \<not> startswith file_name ''merged_'') files))"

definition excel_files_sorted :: "filesystem \<Rightarrow> string \<Rightarrow> string list" where
  "excel_files_sorted fs folder_path = sort (excel_files fs folder_path)"

definition merge_loop :: "filesystem \<Rightarrow> string list \<Rightarrow> merge_state" where
  "merge_loop fs paths =
     fold (merge_step fs) (enumerate 0 paths) \<lparr>frames = [], headers = None, printed = []\<rparr>"

text \<open>
  The function returns the merged frame or \<open>None\<close>; the model returns the printed lines
  with it.
\<close>

definition merge_excel_data_in_path :: "filesystem \<Rightarrow> string \<Rightarrow> frame option \<times> string list" where
  "merge_excel_data_in_path fs folder_path =
     (let st = merge_loop fs (excel_files_sorted fs folder_path)
      in (if frames st \<noteq> [] then Some (pandas_concat (frames st)) else None, printed st))"

section \<open>What a source file holds, as the merge reads it\<close>

definition file_columns :: "filesystem \<Rightarrow> string \<Rightarrow> cell list option" where
  "file_columns fs p = (case read_excel fs p of Inr df \<Rightarrow> Some (columns df) | Inl e \<Rightarrow> None)"

definition row_count :: "filesystem \<Rightarrow> string \<Rightarrow> nat" where
  "row_count fs p = (case read_excel fs p of Inr df \<Rightarrow> length (rows df) | Inl e \<Rightarrow> 0)"


section \<open>Creating directories and writing files\<close>

text \<open>
  \<open>os.mkdir(p)\<close>: the path must be new and its parent a directory. A parent given as the
  empty string is the working directory of the process.
\<close>

definition mkdir :: "filesystem \<Rightarrow> string \<Rightarrow> oserror + filesystem" where
  "mkdir fs p =
     (if os_path_exists fs p then Inl (FileExistsError p)
      else if os_path_dirname p = [] \<or> os_path_isdir fs (os_path_dirname p)
        then Inr (fs @ [(p, Dir)])
      else if os_path_exists fs (os_path_dirname p) then Inl (NotADirectoryError p)
      else Inl (FileNotFoundError p))"

text \<open>
  \<open>os.makedirs(name, exist_ok=True)\<close>, as the standard library writes it: split the name,
  create the head first when it does not exist, then the leaf; an error of the leaf's
  \<open>mkdir\<close> is dropped when the leaf is a directory. The result is the file system as the
  call leaves it, with the error it raised, if any.
\<close>

definition makedirs_parts :: "string \<Rightarrow> string \<times> string" where
  "makedirs_parts name =
     (if snd (os_path_split name) = [] then os_path_split (fst (os_path_split name))
      else os_path_split name)"

definition makedirs_leaf :: "filesystem \<Rightarrow> string \<Rightarrow> filesystem \<times> oserror option" where
  "makedirs_leaf fs name =
     (case mkdir fs name of
        Inr fs' \<Rightarrow> (fs', None)
      | Inl e \<Rightarrow> if \<not> os_path_isdir fs name then (fs, Some e) else (fs, None))"

function makedirs :: "filesystem \<Rightarrow> string \<Rightarrow> filesystem \<times> oserror option" where
  "makedirs fs name =
     (if fst (makedirs_parts name) \<noteq> [] \<and> snd (makedirs_parts name) \<noteq> []
          \<and> \<not> os_path_exists fs (fst (makedirs_parts name))
      then
        (case makedirs fs (fst (makedirs_parts name)) of
           (fs', Some (FileExistsError p)) \<Rightarrow>
             if snd (makedirs_parts name) = ''.'' then (fs', None) else makedirs_leaf fs' name
         | (fs', Some e) \<Rightarrow> (fs', Some e)
         | (fs', None) \<Rightarrow>
             if snd (makedirs_parts name) = ''.'' then (fs', None) else makedirs_leaf fs' name)
      else makedirs_leaf fs name)"
  by pat_completeness auto
termination
proof -
  have length_split:
    "length (fst (os_path_split p)) + length (snd (os_path_split p)) \<le> length p" for p
  proof -
    define t where "t = takeWhile (\<lambda>c. c \<noteq> CHR ''/'') (rev p)"
    define h where "h = take (length p - length t) p"
    have t: "length t \<le> length p"
      unfolding t_def using length_takeWhile_le[of _ "rev p"] by simp
    have h: "length h = length p - length t" by (simp add: h_def)
    have r: "length (rstrip_sep h) \<le> length h"
      unfolding rstrip_sep_def using length_dropWhile_le[of _ "rev h"] by simp
    have s: "os_path_split p =
        (if h \<noteq> [] \<and> h \<noteq> replicate (length h) CHR ''/'' then rstrip_sep h else h, rev t)"
      by (simp add: os_path_split_def Let_def t_def h_def)
    show ?thesis unfolding s using t h r by auto
  qed
  have shorter: "length (fst (makedirs_parts name)) < length name"
    if "snd (makedirs_parts name) \<noteq> []" for name
  proof (cases "snd (os_path_split name) = []")
    case True
    let ?h = "fst (os_path_split name)"
    have p: "makedirs_parts name = os_path_split ?h" using True by (simp add: makedirs_parts_def)
    have "0 < length (snd (os_path_split ?h))" using that p by simp
    then have "length (fst (os_path_split ?h)) < length ?h"
      using length_split[of ?h] by linarith
    moreover have "length ?h \<le> length name" using length_split[of name] by linarith
    ultimately show ?thesis using p by simp
  next
    case False
    then have p: "makedirs_parts name = os_path_split name" by (simp add: makedirs_parts_def)
    have "0 < length (snd (os_path_split name))" using False by simp
    then have "length (fst (os_path_split name)) < length name"
      using length_split[of name] by linarith
    then show ?thesis by (simp add: p)
  qed
  show ?thesis
    by (relation "measure (\<lambda>(fs, name). length name)") (auto simp: shorter)
qed

declare makedirs.simps [simp del]


text \<open>
  Writing a file (\<open>to_excel\<close>, \<open>to_csv\<close>, \<open>Workbook.save\<close>): the parent must be a directory
  and the path must not be one; an existing file is replaced.
\<close>

definition write_file :: "filesystem \<Rightarrow> string \<Rightarrow> content \<Rightarrow> oserror + filesystem" where
  "write_file fs p c =
     (if os_path_isdir fs p then Inl (IsADirectoryError p)
      else if os_path_dirname p = [] \<or> os_path_isdir fs (os_path_dirname p)
        then Inr (AList.update p (File c) fs)
      else if os_path_exists fs (os_path_dirname p) then Inl (NotADirectoryError p)
      else Inl (FileNotFoundError p))"

text \<open>
  \<open>dataframe.to_excel(path, index=False)\<close> writes one sheet, the column labels in its
  first row; \<open>dataframe.to_csv(path, index=False)\<close> writes the same lines as text.
\<close>

definition to_excel :: "filesystem \<Rightarrow> frame \<Rightarrow> string \<Rightarrow> oserror + filesystem" where
  "to_excel fs df p =
     write_file fs p (Workbook [\<lparr>title = ''Sheet1'', iter_rows = columns df # rows df\<rparr>])"

definition to_csv :: "filesystem \<Rightarrow> frame \<Rightarrow> string \<Rightarrow> oserror + filesystem" where
  "to_csv fs df p = write_file fs p (Csv (columns df # rows df))"

section \<open>merge_excel_files.py: the script\<close>

text \<open>
  What the process is started with: \<open>sys.argv\<close>, the value of
  \<open>os.path.realpath(__file__)\<close>, the function \<open>os.path.abspath\<close> of the working directory it
  runs in, and the value of \<open>datetime.datetime.now().strftime('%Y%m%d_%H%M')\<close>.
\<close>

record env =
  argv :: "string list"
  this_file_path :: string
  abspath :: "string \<Rightarrow> string"
  timestamp :: string

text \<open>
  How the process ends: its exit code, the file system it leaves, the lines it printed
  on standard output, and the exception that ended it when none caught it (the
  interpreter then prints the traceback on standard error and exits with code 1).
\<close>

record outcome =
  exit_code :: nat
  files :: filesystem
  console :: "string list"
  uncaught :: "exn option"

definition safe_shutdown :: "nat \<Rightarrow> filesystem \<Rightarrow> string list \<Rightarrow> outcome" where
  "safe_shutdown code fs out =
     \<lparr>exit_code = code, files = fs, console = out @ [[]], uncaught = None\<rparr>"

definition traceback :: "exn \<Rightarrow> filesystem \<Rightarrow> string list \<Rightarrow> outcome" where
  "traceback e fs out = \<lparr>exit_code = 1, files = fs, console = out, uncaught = Some e\<rparr>"

text \<open>
  The globals the module computes once the argument is known to be there:
  \<open>this_file_dir\<close>, \<open>files_to_merge_dir\<close> and \<open>target_dir_path\<close>.
\<close>

definition this_file_dir :: "env \<Rightarrow> string" where
  "this_file_dir ev = os_path_dirname (this_file_path ev)"

definition files_to_merge_dir :: "env \<Rightarrow> string" where
  "files_to_merge_dir ev = abspath ev (argv ev ! 1)"

definition target_dir_path :: "env \<Rightarrow> string" where
  "target_dir_path ev = os_path_join (files_to_merge_dir ev) ''merged_excel_files''"

text \<open>\<open>main()\<close> reads these globals. It ends the process (\<open>Inl\<close>) or returns (\<open>Inr\<close>).\<close>

definition main :: "env \<Rightarrow> filesystem \<Rightarrow> string list \<Rightarrow> outcome + filesystem \<times> string list" where
  "main ev fs out =
     (let out1 = out @ [''Looking for Excel files in given path to merge...\<newline>'']
      in if files_to_merge_dir ev = this_file_dir ev then
           Inl (safe_shutdown 1 fs
                  (out1 @ [error ''Error: Path same as script file path. Use a subfolder for files to be merged.'']))
         else
           (let dataframe = fst (merge_excel_data_in_path fs (files_to_merge_dir ev));
                out2 = out1 @ snd (merge_excel_data_in_path fs (files_to_merge_dir ev))
            in case dataframe of
                 Some df \<Rightarrow>
                   (let target_XLSX_file_path =
                          os_path_join (target_dir_path ev)
                            (''merged_excel_data_'' @ timestamp ev @ ''.xlsx'');
                        target_CSV_file_path =
                          os_path_join (target_dir_path ev)
                            (''merged_excel_data_'' @ timestamp ev @ ''.csv'')
                    in case to_excel fs df target_XLSX_file_path of
                         Inl e \<Rightarrow> Inl (traceback (OSError e) fs out2)
                       | Inr fs1 \<Rightarrow>
                           (case to_csv fs1 df target_CSV_file_path of
                              Inl e \<Rightarrow> Inl (traceback (OSError e) fs1 out2)
                            | Inr fs2 \<Rightarrow>
                                Inr (fs2, out2 @
                                  [''\<newline>Merge operation COMPLETE. Look in the 'merged_excel_files' subfolder.'',
                                   ''\<newline>Merged XLSX file name:\<newline>\<newline>    '' @ quoted target_XLSX_file_path,
                                   ''\<newline>Merged CSV file name:\<newline>\<newline>    '' @ quoted target_CSV_file_path])))
               | None \<Rightarrow>
                   Inr (fs, out2 @ [[], info ''No Excel files were found or successfully read.''])))"

text \<open>
  The script from its first statement: the check of the arguments, the creation of the
  output directory, then \<open>main()\<close> and \<open>safe_shutdown(0)\<close>.
\<close>

definition merge_excel_files_py :: "env \<Rightarrow> filesystem \<Rightarrow> outcome" where
  "merge_excel_files_py ev fs =
     (if length (argv ev) < 2 then
        safe_shutdown 1 fs
          [error ''Error: No arguments given. Provide a path to a folder with Excel files to merge.'']
      else
        (case makedirs fs (target_dir_path ev) of
           (fs1, Some os_err) \<Rightarrow>
             safe_shutdown 1 fs1
               [''Error creating directory '' @ quoted (target_dir_path ev) @ '':\<newline>'' @ [CHR 0x09]
                  @ str_oserror os_err]
         | (fs1, None) \<Rightarrow>
             (case main ev fs1 [[]] of
                Inl ended \<Rightarrow> ended
              | Inr (fs2, out) \<Rightarrow> safe_shutdown 0 fs2 out)))"

text \<open>The entries of a file system that are files.\<close>

definition regular_files :: "filesystem \<Rightarrow> filesystem" where
  "regular_files fs = filter (\<lambda>e. snd e \<noteq> Dir) fs"

section \<open>split_excel_sheets.py\<close>


text \<open>\<open>str.lower\<close> on the letters A to Z.\<close>

definition lower :: "string \<Rightarrow> string" where
  "lower s = map (\<lambda>c. if CHR ''A'' \<le> c \<and> c \<le> CHR ''Z'' then char_of (of_char c + 32 :: nat) else c) s"












section \<open>Sheets that pandas reads as they are\<close>

text \<open>
  A text that pandas keeps in a data cell as the text it is: it starts with a letter, so
  that it spells no number, and it is none of the words that pandas reads as a missing
  value, as a truth value or as a floating-point number.
\<close>

definition is_letter :: "char \<Rightarrow> bool" where
  "is_letter c = (65 \<le> (of_char c :: nat) \<and> (of_char c :: nat) \<le> 90
                   \<or> 97 \<le> (of_char c :: nat) \<and> (of_char c :: nat) \<le> 122)"

definition kept_text :: "string \<Rightarrow> bool" where
  "kept_text s =
     (s \<noteq> [] \<and> is_letter (hd s) \<and> s \<notin> set na_values
      \<and> lower s \<notin> set [''true'', ''false'', ''inf'', ''infinity'', ''nan''])"

definition plain_cell :: "cell \<Rightarrow> bool" where
  "plain_cell c = (case c of Blank \<Rightarrow> True | Number n \<Rightarrow> True | Text s \<Rightarrow> kept_text s)"

text \<open>
  A header row of such texts, all different, and a sheet that has this header row and
  under it rows of the same width, of such cells, none of them empty throughout.
\<close>

definition plain_header :: "cell list \<Rightarrow> bool" where
  "plain_header hs =
     (hs \<noteq> [] \<and> distinct hs
      \<and> list_all (\<lambda>c. case c of Text s \<Rightarrow> kept_text s | _ \<Rightarrow> False) hs)"

definition plain_sheet :: "cell list \<Rightarrow> sheet \<Rightarrow> bool" where
  "plain_sheet hs s =
     (case iter_rows s of
        [] \<Rightarrow> False
      | header_row # data \<Rightarrow>
          header_row = hs
          \<and> list_all (\<lambda>r. length r = length hs \<and> list_all plain_cell r
                           \<and> list_ex (\<lambda>c. c \<noteq> Blank) r) data)"

section \<open>Example directories and invocations\<close>

definition sheet_a :: sheet where
  "sheet_a = \<lparr>title = ''Sheet1'',
     iter_rows = [[Text ''id'', Text ''name''],
                  [Number 1, Text ''ann''],
                  [Number 2, Text ''bob'']]\<rparr>"

definition sheet_b :: sheet where
  "sheet_b = \<lparr>title = ''Sheet1'',
     iter_rows = [[Text ''id'', Text ''name''],
                  [Number 3, Text ''cy''],
                  [Number 4, Text ''dee''],
                  [Number 5, Text ''eve'']]\<rparr>"

definition sheet_email :: sheet where
  "sheet_email = \<lparr>title = ''Sheet1'',
     iter_rows = [[Text ''id'', Text ''email''],
                  [Number 9, Text ''z@example.org'']]\<rparr>"

definition sheet_header_only :: sheet where
  "sheet_header_only = \<lparr>title = ''Sheet1'', iter_rows = [[Text ''id'', Text ''name'']]\<rparr>"


text \<open>
  A directory with a file of other headers between two files that agree, a legacy file
  that cannot be read, an earlier output, a text file and a subdirectory.
\<close>

definition fs_mixed :: filesystem where
  "fs_mixed = [(''/'', Dir), (''/data'', Dir),
               (''/data/c.xlsx'', File (Workbook [sheet_b])),
               (''/data/notes.txt'', File Garbage),
               (''/data/a.xlsx'', File (Workbook [sheet_a])),
               (''/data/merged_old.xlsx'', File (Workbook [sheet_a])),
               (''/data/sub'', Dir),
               (''/data/sub/z.xlsx'', File (Workbook [sheet_a])),
               (''/data/b.xlsx'', File (Workbook [sheet_email])),
               (''/data/legacy.xls'', File Garbage)]"

text \<open>The script installed under \<open>/opt/tools\<close>, started on \<open>/data\<close>.\<close>

definition env_data :: env where
  "env_data = \<lparr>argv = [''merge_excel_files.py'', ''/data''],
                this_file_path = ''/opt/tools/merge_excel_files.py'',
                abspath = (\<lambda>p. p),
                timestamp = ''20240131_0930''\<rparr>"

text \<open>The first file of the directory is not a workbook.\<close>

definition fs_first_bad :: filesystem where
  "fs_first_bad = [(''/'', Dir), (''/data'', Dir),
                   (''/data/a.xlsx'', File Garbage),
                   (''/data/b.xlsx'', File (Workbook [sheet_b]))]"

text \<open>The only file has its header row and nothing else.\<close>

definition fs_header_only :: filesystem where
  "fs_header_only = [(''/'', Dir), (''/data'', Dir),
                     (''/data/a.xlsx'', File (Workbook [sheet_header_only]))]"



text \<open>The script started on the directory that holds it.\<close>

definition fs_tools :: filesystem where
  "fs_tools = [(''/'', Dir), (''/opt'', Dir), (''/opt/tools'', Dir),
               (''/opt/tools/merge_excel_files.py'', File Garbage)]"

definition env_self :: env where
  "env_self = \<lparr>argv = [''merge_excel_files.py'', ''/opt/tools''],
                this_file_path = ''/opt/tools/merge_excel_files.py'',
                abspath = (\<lambda>p. p),
                timestamp = ''20240131_0930''\<rparr>"


text \<open>
  Two files with the same header row, a text and two years: the labels of the years
  are integers.
\<close>

definition sheet_years :: sheet where
  "sheet_years = \<lparr>title = ''Sheet1'',
     iter_rows = [[Text ''region'', Number 2021, Number 2022],
                  [Text ''north'', Number 10, Number 20]]\<rparr>"

definition fs_years :: filesystem where
  "fs_years = [(''/'', Dir), (''/data'', Dir),
               (''/data/a.xlsx'', File (Workbook [sheet_years])),
               (''/data/b.xlsx'', File (Workbook [sheet_years]))]"


definition sheet_north :: sheet where
  "sheet_north = \<lparr>title = ''North'',
     iter_rows = [[Text ''id'', Text ''name''],
                  [Number 1, Text ''ann''],
                  [Number 2, Text ''bob'']]\<rparr>"



text \<open>The merge script started on the folder that this split makes.\<close>

definition env_merge_split :: env where
  "env_merge_split = \<lparr>argv = [''merge_excel_files.py'', ''/data/book_20240131_0930''],
                 this_file_path = ''/opt/tools/merge_excel_files.py'',
                 abspath = (\<lambda>p. p),
                 timestamp = ''20240131_0931''\<rparr>"



text \<open>A workbook with a sheet whose title starts with \<open>merged_\<close>.\<close>

definition sheet_merged_2023 :: sheet where
  "sheet_merged_2023 = \<lparr>title = ''merged_2023'',
     iter_rows = [[Text ''id'', Text ''name''],
                  [Number 3, Text ''cy'']]\<rparr>"

definition fs_merged_sheet :: filesystem where
  "fs_merged_sheet = [(''/'', Dir), (''/data'', Dir),
               (''/data/book.xlsx'', File (Workbook [sheet_north, sheet_merged_2023]))]"




section \<open>Paths and the directory scan\<close>

lemma basename_no_sep: "CHR ''/'' \<notin> set (os_path_basename p)"
  by (auto simp: os_path_basename_def os_path_split_def Let_def dest: set_takeWhileD)

lemma basename_append:
  assumes "CHR ''/'' \<notin> set name" and "x = [] \<or> last x = CHR ''/''"
  shows "os_path_basename (x @ name) = name"
proof -
  have a: "takeWhile (\<lambda>c. c \<noteq> CHR ''/'') (rev name @ rev x) = rev name @ takeWhile (\<lambda>c. c \<noteq> CHR ''/'') (rev x)"
    using assms(1) by (intro takeWhile_append2) auto
  have b: "takeWhile (\<lambda>c. c \<noteq> CHR ''/'') (rev x) = []"
    using assms(2) by (cases x rule: rev_cases) auto
  show ?thesis
    by (simp add: os_path_basename_def os_path_split_def Let_def a b)
qed

lemma join_shape:
  assumes "CHR ''/'' \<notin> set name"
  shows "\<exists>x. os_path_join d name = x @ name \<and> (x = [] \<or> last x = CHR ''/'')"
proof -
  have ns: "\<not> startswith name ''/''"
    using assms by (cases name) (auto simp: startswith_def)
  show ?thesis
  proof (cases "d = [] \<or> endswith d ''/''")
    case True
    then have "os_path_join d name = d @ name" using ns by (simp add: os_path_join_def)
    moreover have "d = [] \<or> last d = CHR ''/''"
      using True by (cases d rule: rev_cases) (auto simp: endswith_def)
    ultimately show ?thesis by blast
  next
    case False
    then have "os_path_join d name = (d @ ''/'') @ name" using ns by (simp add: os_path_join_def)
    then show ?thesis by (metis last_snoc)
  qed
qed

lemma basename_join:
  assumes "CHR ''/'' \<notin> set name"
  shows "os_path_basename (os_path_join d name) = name"
  using join_shape[OF assms, of d] basename_append[OF assms] by metis

lemma set_scandir:
  "set (scandir fs d) =
     {(name, n). name \<noteq> [] \<and> CHR ''/'' \<notin> set name \<and> (os_path_join d name, n) \<in> set fs}"
proof (intro set_eqI iffI)
  fix e assume "e \<in> set (scandir fs d)"
  then obtain p n where "(p, n) \<in> set fs" "os_path_basename p \<noteq> []"
      "os_path_join d (os_path_basename p) = p" "e = (os_path_basename p, n)"
    by (auto simp: scandir_def)
  then show "e \<in> {(name, n). name \<noteq> [] \<and> CHR ''/'' \<notin> set name \<and> (os_path_join d name, n) \<in> set fs}"
    by (simp add: basename_no_sep)
next
  fix e assume "e \<in> {(name, n). name \<noteq> [] \<and> CHR ''/'' \<notin> set name \<and> (os_path_join d name, n) \<in> set fs}"
  then obtain name n where e: "e = (name, n)" "name \<noteq> []" "CHR ''/'' \<notin> set name"
      "(os_path_join d name, n) \<in> set fs"
    by auto
  have "os_path_basename (os_path_join d name) = name" using e(3) by (rule basename_join)
  then show "e \<in> set (scandir fs d)"
    using e unfolding scandir_def by force
qed

lemma set_excel_files:
  "set (excel_files fs d) =
     {p. os_path_isdir fs d \<and> (\<exists>name c. p = os_path_join d name \<and> (p, File c) \<in> set fs
           \<and> name \<noteq> [] \<and> CHR ''/'' \<notin> set name
           \<and> (endswith name ''.xlsx'' \<or> endswith name ''.xls'')
           \<and> \<not> startswith name ''merged_'')}"
proof (cases "os_path_isdir fs d")
  case False
  then show ?thesis by (simp add: excel_files_def os_walk_top_def)
next
  case True
  have f: "set (map fst (filter (\<lambda>e. snd e \<noteq> Dir) (scandir fs d))) =
     {name. \<exists>c. name \<noteq> [] \<and> CHR ''/'' \<notin> set name \<and> (os_path_join d name, File c) \<in> set fs}"
  proof -
    have "set (map fst (filter (\<lambda>e. snd e \<noteq> Dir) (scandir fs d)))
         = {name. \<exists>n. (name, n) \<in> set (scandir fs d) \<and> n \<noteq> Dir}"
      by force
    also have "\<dots> = {name. \<exists>c. name \<noteq> [] \<and> CHR ''/'' \<notin> set name \<and> (os_path_join d name, File c) \<in> set fs}"
      unfolding set_scandir
      apply auto
      subgoal for x n by (cases n) auto
      done
    finally show ?thesis .
  qed
  define F where "F = map fst (filter (\<lambda>e. snd e \<noteq> Dir) (scandir fs d))"
  have "excel_files fs d = map (os_path_join d)
      (filter (\<lambda>name. (endswith name ''.xlsx'' \<or> endswith name ''.xls'')
                  \<and> \<not> startswith name ''merged_'') F)"
    using True by (simp add: excel_files_def os_walk_top_def F_def)
  then have "set (excel_files fs d) = os_path_join d `
      {name \<in> set F.
         (endswith name ''.xlsx'' \<or> endswith name ''.xls'') \<and> \<not> startswith name ''merged_''}"
    by (simp only: set_map set_filter)
  also have "\<dots> = os_path_join d `
      {name. (\<exists>c. name \<noteq> [] \<and> CHR ''/'' \<notin> set name \<and> (os_path_join d name, File c) \<in> set fs)
         \<and> (endswith name ''.xlsx'' \<or> endswith name ''.xls'') \<and> \<not> startswith name ''merged_''}"
    unfolding F_def f by simp
  also have "\<dots> = {p. os_path_isdir fs d \<and> (\<exists>name c. p = os_path_join d name \<and> (p, File c) \<in> set fs
           \<and> name \<noteq> [] \<and> CHR ''/'' \<notin> set name
           \<and> (endswith name ''.xlsx'' \<or> endswith name ''.xls'')
           \<and> \<not> startswith name ''merged_'')}"
    using True by auto
  finally show ?thesis .
qed


text \<open>
  Claim C5. The files the merge processes are exactly the immediate children of the input
  directory that are files, whose name ends in \<open>.xlsx\<close> or \<open>.xls\<close> and does not start
  with \<open>merged_\<close>; the loop takes them in lexicographically sorted order.
\<close>

theorem C5_eligible_files_sorted:
  "set (excel_files_sorted fs d) =
     {p. os_path_isdir fs d \<and> (\<exists>name c. p = os_path_join d name \<and> (p, File c) \<in> set fs
           \<and> name \<noteq> [] \<and> CHR ''/'' \<notin> set name
           \<and> (endswith name ''.xlsx'' \<or> endswith name ''.xls'')
           \<and> \<not> startswith name ''merged_'')}
   \<and> sorted (excel_files_sorted fs d)"
  by (simp add: excel_files_sorted_def set_excel_files)

theorem C5_eligible_files_sorted_witness:
  "excel_files_sorted fs_mixed ''/data'' =
       [''/data/a.xlsx'', ''/data/b.xlsx'', ''/data/c.xlsx'', ''/data/legacy.xls'']
   \<and> {p. os_path_isdir fs_mixed ''/data'' \<and> (\<exists>name c. p = os_path_join ''/data'' name
           \<and> (p, File c) \<in> set fs_mixed
           \<and> name \<noteq> [] \<and> CHR ''/'' \<notin> set name
           \<and> (endswith name ''.xlsx'' \<or> endswith name ''.xls'')
           \<and> \<not> startswith name ''merged_'')}
      = set [''/data/a.xlsx'', ''/data/b.xlsx'', ''/data/c.xlsx'', ''/data/legacy.xls'']"
proof -
  have e: "excel_files_sorted fs_mixed ''/data'' =
       [''/data/a.xlsx'', ''/data/b.xlsx'', ''/data/c.xlsx'', ''/data/legacy.xls'']"
    by code_simp
  from C5_eligible_files_sorted[of fs_mixed "''/data''"]
  have "set (excel_files_sorted fs_mixed ''/data'') =
     {p. os_path_isdir fs_mixed ''/data'' \<and> (\<exists>name c. p = os_path_join ''/data'' name
           \<and> (p, File c) \<in> set fs_mixed
           \<and> name \<noteq> [] \<and> CHR ''/'' \<notin> set name
           \<and> (endswith name ''.xlsx'' \<or> endswith name ''.xls'')
           \<and> \<not> startswith name ''merged_'')}"
    by (rule conjunct1)
  then show ?thesis unfolding e by (simp only: e simp_thms)
qed

section \<open>The loop over the sorted files\<close>

lemma try_body_first:
  "read_excel fs p = Inr df \<Longrightarrow>
   try_body fs 0 p st = Inr (st\<lparr>headers := Some (columns df),
       printed := printed st @ [''Grabbing headers from first file...\<newline>'',
                                ''Wait for all merge operations to finish...\<newline>''],
       frames := frames st @ [df]\<rparr>)"
  by (simp add: try_body_def)

lemma merge_step_first:
  assumes "read_excel fs p = Inr df"
  shows "frames (merge_step fs (0, p) st) = frames st @ [df]"
    and "headers (merge_step fs (0, p) st) = Some (columns df)"
  using assms by (simp_all add: merge_step_def try_body_first)

lemma merge_step_first_fail:
  assumes "read_excel fs p = Inl e"
  shows "frames (merge_step fs (0, p) st) = frames st"
    and "headers (merge_step fs (0, p) st) = headers st"
  using assms by (simp_all add: merge_step_def try_body_def)








lemma merge_step_mismatch:
  assumes "0 < i" "headers st = Some hs" "read_excel fs p = Inr df"
    "take (length hs) (columns df) \<noteq> hs"
  shows "merge_step fs (i, p) st =
     st\<lparr>printed := printed st @
        except_block p (ValueError (''Headers do not match for file: '' @ p))\<rparr>"
  using assms by (simp add: merge_step_def try_body_def)

lemma merge_step_no_headers:
  assumes "0 < i" "headers st = None"
  shows "merge_step fs (i, p) st =
     st\<lparr>printed := printed st @
        except_block p (case read_excel fs p of
                          Inl e \<Rightarrow> e
                        | Inr df \<Rightarrow> TypeError ''object of type 'NoneType' has no len()'')\<rparr>"
proof (cases "read_excel fs p")
  case (Inl e)
  then show ?thesis using assms by (simp add: merge_step_def try_body_def)
next
  case (Inr df)
  then show ?thesis using assms by (simp add: merge_step_def try_body_def)
qed

lemma merge_step_headers_kept:
  assumes "0 < i"
  shows "headers (merge_step fs (i, p) st) = headers st"
  using assms by (auto simp: merge_step_def try_body_def split: sum.splits option.splits)


lemma loop_headers_kept:
  "0 < n \<Longrightarrow> headers (fold (merge_step fs) (enumerate n ps) st) = headers st"
  by (induction ps arbitrary: n st) (simp_all add: merge_step_headers_kept)






lemma merge_step_cong:
  assumes "0 < i" "0 < j" "frames st = frames st'" "headers st = headers st'"
  shows "frames (merge_step fs (i, p) st) = frames (merge_step fs (j, p) st')
       \<and> headers (merge_step fs (i, p) st) = headers (merge_step fs (j, p) st')"
  using assms
  by (auto simp: merge_step_def try_body_def split: sum.splits option.splits)

lemma loop_cong:
  assumes "0 < i" "0 < j" "frames st = frames st'" "headers st = headers st'"
  shows "frames (fold (merge_step fs) (enumerate i ps) st) =
         frames (fold (merge_step fs) (enumerate j ps) st')"
  using assms
proof (induction ps arbitrary: i j st st')
  case Nil
  then show ?case by simp
next
  case (Cons p ps)
  have "frames (fold (merge_step fs) (enumerate (Suc i) ps) (merge_step fs (i, p) st)) =
        frames (fold (merge_step fs) (enumerate (Suc j) ps) (merge_step fs (j, p) st'))"
    using merge_step_cong[OF Cons.prems, of fs p] by (intro Cons.IH) simp_all
  then show ?case by simp
qed

lemma printed_step_mono: "set (printed st) \<subseteq> set (printed (merge_step fs ip st))"
  by (auto simp: merge_step_def try_body_def split: sum.splits option.splits if_splits)

lemma printed_loop_mono: "set (printed st) \<subseteq> set (printed (fold (merge_step fs) ips st))"
proof (induction ips arbitrary: st)
  case Nil
  then show ?case by simp
next
  case (Cons ip ips)
  then show ?case using printed_step_mono[of st fs ip] by (simp, blast)
qed

text \<open>The lines of the \<open>except\<close> block and of the report of an appended file, as printed.\<close>

lemma except_block_line:
  "set (except_block p e) \<subseteq> set out \<Longrightarrow>
   ''(EE) Error while reading '' @ p @ '':\<newline>'' @ [CHR 0x09] @ str_exn e @ ''\<newline>'' \<in> set out"
  by (simp add: except_block_def error_def)

lemma appending_line_literal:
  "appending_line p = ''Appending data from file: '' @ [CHR 0x27] @ os_path_basename p @ [CHR 0x27]"
  by (simp add: appending_line_def quoted_def)

text \<open>Every file of the list is reported: appended, or an error line.\<close>

lemma step_reports:
  "appending_line p \<in> set (printed (merge_step fs (i, p) st))
   \<or> (\<exists>e. set (except_block p e) \<subseteq> set (printed (merge_step fs (i, p) st)))"
proof (cases "try_body fs i p st")
  case (Inl e)
  then have "set (except_block p e) \<subseteq> set (printed (merge_step fs (i, p) st))"
    by (simp add: merge_step_def)
  then show ?thesis by blast
next
  case (Inr st')
  then show ?thesis by (simp add: merge_step_def)
qed

lemma loop_reports:
  assumes "p \<in> set ps"
  shows "appending_line p \<in> set (printed (fold (merge_step fs) (enumerate n ps) st))
   \<or> (\<exists>e. set (except_block p e) \<subseteq> set (printed (fold (merge_step fs) (enumerate n ps) st)))"
  using assms
proof (induction ps arbitrary: n st)
  case Nil
  then show ?case by simp
next
  case (Cons q ps)
  show ?case
  proof (cases "p = q")
    case True
    have m: "set (printed (merge_step fs (n, q) st))
        \<subseteq> set (printed (fold (merge_step fs) (enumerate (Suc n) ps) (merge_step fs (n, q) st)))"
      by (rule printed_loop_mono)
    from step_reports[of q fs n st] show ?thesis
      using m True by (simp, blast)
  next
    case False
    then have "p \<in> set ps" using Cons.prems by simp
    from Cons.IH[OF this, of "Suc n" "merge_step fs (n, q) st"] show ?thesis by simp
  qed
qed

lemma enumerate_split:
  assumes "k < length paths"
  shows "enumerate 0 paths =
     enumerate 0 (take k paths) @ (k, paths ! k) # enumerate (Suc k) (drop (Suc k) paths)"
proof -
  have "paths = take k paths @ paths ! k # drop (Suc k) paths"
    using assms by (simp add: id_take_nth_drop)
  then have "enumerate 0 paths = enumerate 0 (take k paths @ paths ! k # drop (Suc k) paths)"
    by simp
  also have "\<dots> = enumerate 0 (take k paths) @ (k, paths ! k) # enumerate (Suc k) (drop (Suc k) paths)"
    using assms by (simp add: enumerate_append_eq)
  finally show ?thesis .
qed

lemma loop_first_headers:
  assumes "paths \<noteq> []" "read_excel fs (paths ! 0) = Inr df0"
  shows "headers (fold (merge_step fs) (enumerate 0 paths) st) = Some (columns df0)"
proof -
  obtain p ps where ps: "paths = p # ps" using assms(1) by (cases paths) auto
  then have r: "read_excel fs p = Inr df0" using assms(2) by simp
  show ?thesis
    unfolding ps using merge_step_first(2)[OF r, of st]
    by (simp add: loop_headers_kept)
qed


lemma frames_step_mono: "length (frames st) \<le> length (frames (merge_step fs ip st))"
  by (auto simp: merge_step_def try_body_def split: sum.splits option.splits if_splits)

lemma frames_loop_mono:
  "length (frames st) \<le> length (frames (fold (merge_step fs) ips st))"
proof (induction ips arbitrary: st)
  case Nil
  then show ?case by simp
next
  case (Cons ip ips)
  show ?case
    using frames_step_mono[of st fs ip] Cons.IH[of "merge_step fs ip st"] by simp
qed

lemma loop_first_frames:
  assumes "paths \<noteq> []" "read_excel fs (paths ! 0) = Inr df0"
  shows "frames (merge_loop fs paths) \<noteq> []"
proof -
  obtain p ps where ps: "paths = p # ps" using assms(1) by (cases paths) auto
  then have r: "read_excel fs p = Inr df0" using assms(2) by simp
  let ?st0 = "\<lparr>frames = [], headers = None, printed = []\<rparr>"
  have "length (frames (merge_step fs (0, p) ?st0)) = 1"
    using merge_step_first(1)[OF r, of ?st0] by simp
  then have "1 \<le> length (frames (fold (merge_step fs) (enumerate 1 ps) (merge_step fs (0, p) ?st0)))"
    using frames_loop_mono[of "merge_step fs (0, p) ?st0" fs "enumerate 1 ps"] by simp
  then show ?thesis unfolding ps merge_loop_def by auto
qed

text \<open>
  Claim C2. A file after the first whose leading columns (as many as the canonical
  headers of the first file) differ from the canonical headers adds no frame: the loop
  accumulates what it accumulates without that file. The error line for it is printed,
  with the message of the \<open>ValueError\<close>, and every file after it is still reported, by
  the line of an appended file or by an error line of its own, so the run goes on.
\<close>

theorem C2_header_mismatch_skipped:
  assumes "paths = excel_files_sorted fs d"
    and "0 < k" and "k < length paths"
    and "file_columns fs (paths ! 0) = Some hs"
    and "file_columns fs (paths ! k) = Some cs"
    and "take (length hs) cs \<noteq> hs"
  shows "frames (merge_loop fs paths) = frames (merge_loop fs (take k paths @ drop (Suc k) paths))
     \<and> fst (merge_excel_data_in_path fs d) =
         Some (pandas_concat (frames (merge_loop fs (take k paths @ drop (Suc k) paths))))
     \<and> ''(EE) Error while reading '' @ paths ! k @ '':\<newline>'' @ [CHR 0x09]
          @ ''Headers do not match for file: '' @ paths ! k @ ''\<newline>''
         \<in> set (snd (merge_excel_data_in_path fs d))
     \<and> (\<forall>j. k < j \<and> j < length paths \<longrightarrow>
           ''Appending data from file: '' @ [CHR 0x27] @ os_path_basename (paths ! j) @ [CHR 0x27]
             \<in> set (snd (merge_excel_data_in_path fs d))
           \<or> (\<exists>msg. ''(EE) Error while reading '' @ paths ! j @ '':\<newline>'' @ [CHR 0x09]
                       @ msg @ ''\<newline>''
                 \<in> set (snd (merge_excel_data_in_path fs d))))"
proof -
  let ?st0 = "\<lparr>frames = [], headers = None, printed = []\<rparr>"
  let ?pre = "take k paths" and ?x = "paths ! k" and ?post = "drop (Suc k) paths"
  let ?st1 = "fold (merge_step fs) (enumerate 0 ?pre) ?st0"
  let ?st2 = "merge_step fs (k, ?x) ?st1"
  let ?err = "except_block ?x (ValueError (''Headers do not match for file: '' @ ?x))"
  let ?out = "snd (merge_excel_data_in_path fs d)"
  obtain df0 where df0: "read_excel fs (paths ! 0) = Inr df0" "columns df0 = hs"
    using assms(4) by (cases "read_excel fs (paths ! 0)") (simp_all add: file_columns_def)
  obtain dfk where dfk: "read_excel fs ?x = Inr dfk" "columns dfk = cs"
    using assms(5) by (cases "read_excel fs ?x") (simp_all add: file_columns_def)
  have ne: "paths \<noteq> []" using assms(3) by auto
  have pre: "?pre \<noteq> []" "?pre ! 0 = paths ! 0" "length ?pre = k"
    using assms(2,3) by auto
  have h1: "headers ?st1 = Some hs"
    using loop_first_headers[of ?pre fs df0 ?st0] pre df0 by simp
  have s2: "?st2 = ?st1\<lparr>printed := printed ?st1 @ ?err\<rparr>"
    using merge_step_mismatch[OF assms(2) h1 dfk(1)] dfk(2) assms(6) by simp
  have whole: "merge_loop fs paths = fold (merge_step fs) (enumerate (Suc k) ?post) ?st2"
    unfolding merge_loop_def using enumerate_split[OF assms(3)] by simp
  have without: "merge_loop fs (?pre @ ?post) = fold (merge_step fs) (enumerate k ?post) ?st1"
    unfolding merge_loop_def using pre(3) by (simp add: enumerate_append_eq)
  have fr: "frames (merge_loop fs paths) = frames (merge_loop fs (?pre @ ?post))"
    unfolding whole without
    by (rule loop_cong) (simp_all add: assms(2) s2)
  have nonempty: "frames (merge_loop fs paths) \<noteq> []"
    using loop_first_frames[OF ne df0(1)] .
  have out: "?out = printed (merge_loop fs paths)"
    by (simp add: merge_excel_data_in_path_def Let_def assms(1))
  have res: "fst (merge_excel_data_in_path fs d) =
      Some (pandas_concat (frames (merge_loop fs (?pre @ ?post))))"
    using nonempty fr by (simp add: merge_excel_data_in_path_def Let_def assms(1)[symmetric])
  have "set ?err \<subseteq> set (printed ?st2)" unfolding s2 by simp
  also have "\<dots> \<subseteq> set (printed (merge_loop fs paths))"
    unfolding whole by (rule printed_loop_mono)
  finally have "set ?err \<subseteq> set ?out"
    unfolding out .
  from except_block_line[OF this]
  have err: "''(EE) Error while reading '' @ ?x @ '':\<newline>'' @ [CHR 0x09]
          @ ''Headers do not match for file: '' @ ?x @ ''\<newline>'' \<in> set ?out"
    by simp
  have rep: "''Appending data from file: '' @ [CHR 0x27] @ os_path_basename (paths ! j) @ [CHR 0x27]
             \<in> set ?out
           \<or> (\<exists>msg. ''(EE) Error while reading '' @ paths ! j @ '':\<newline>'' @ [CHR 0x09]
                       @ msg @ ''\<newline>'' \<in> set ?out)"
    if "j < length paths" for j
  proof -
    have "appending_line (paths ! j) \<in> set ?out
           \<or> (\<exists>e. set (except_block (paths ! j) e) \<subseteq> set ?out)"
      unfolding out merge_loop_def
      by (rule loop_reports) (simp add: that)
    then show ?thesis
    proof
      assume "appending_line (paths ! j) \<in> set ?out"
      then show ?thesis unfolding appending_line_literal by (rule disjI1)
    next
      assume "\<exists>e. set (except_block (paths ! j) e) \<subseteq> set ?out"
      then obtain e where "set (except_block (paths ! j) e) \<subseteq> set ?out" by blast
      from except_block_line[OF this] show ?thesis by blast
    qed
  qed
  show ?thesis using fr res err rep by blast
qed

theorem C2_header_mismatch_skipped_witness:
  "fst (merge_excel_data_in_path fs_mixed ''/data'') =
     Some (pandas_concat (frames (merge_loop fs_mixed
        [''/data/a.xlsx'', ''/data/c.xlsx'', ''/data/legacy.xls''])))
   \<and> ''(EE) Error while reading /data/b.xlsx:\<newline>'' @ [CHR 0x09]
        @ ''Headers do not match for file: /data/b.xlsx\<newline>''
        \<in> set (snd (merge_excel_data_in_path fs_mixed ''/data''))
   \<and> (''Appending data from file: '' @ [CHR 0x27] @ ''c.xlsx'' @ [CHR 0x27]
          \<in> set (snd (merge_excel_data_in_path fs_mixed ''/data''))
        \<or> (\<exists>msg. ''(EE) Error while reading /data/c.xlsx:\<newline>'' @ [CHR 0x09] @ msg @ ''\<newline>''
                \<in> set (snd (merge_excel_data_in_path fs_mixed ''/data''))))"
proof -
  let ?paths = "[''/data/a.xlsx'', ''/data/b.xlsx'', ''/data/c.xlsx'', ''/data/legacy.xls'']"
  have e: "?paths = excel_files_sorted fs_mixed ''/data''"
    by code_simp
  have k: "(0::nat) < 1" "1 < length ?paths" by simp_all
  have h0: "file_columns fs_mixed (?paths ! 0) = Some [Text ''id'', Text ''name'']"
    by code_simp
  have h1: "file_columns fs_mixed (?paths ! 1) = Some [Text ''id'', Text ''email'']"
    by code_simp
  have ne: "take (length [Text ''id'', Text ''name'']) [Text ''id'', Text ''email'']
              \<noteq> [Text ''id'', Text ''name'']"
    by simp
  have j: "(1::nat) < 2 \<and> 2 < length ?paths" by simp
  have b: "os_path_basename ''/data/c.xlsx'' = ''c.xlsx''" by code_simp
  note t = C2_header_mismatch_skipped[OF e k h0 h1 ne]
  have c: "''Appending data from file: '' @ [CHR 0x27] @ os_path_basename (?paths ! 2) @ [CHR 0x27]
             \<in> set (snd (merge_excel_data_in_path fs_mixed ''/data''))
        \<or> (\<exists>msg. ''(EE) Error while reading '' @ ?paths ! 2 @ '':\<newline>'' @ [CHR 0x09]
                       @ msg @ ''\<newline>''
                \<in> set (snd (merge_excel_data_in_path fs_mixed ''/data'')))"
    using t j by blast
  show ?thesis using t c b by simp
qed

section \<open>Creating directories\<close>

lemma mkdir_appends:
  "mkdir fs p = Inr fs' \<Longrightarrow> fs' = fs @ [(p, Dir)] \<and> \<not> os_path_exists fs p"
  by (auto simp: mkdir_def split: if_splits)

lemma makedirs_leaf_appends:
  "\<exists>ds. fst (makedirs_leaf fs name) = fs @ map (\<lambda>p. (p, Dir)) ds"
proof (cases "mkdir fs name")
  case (Inl e)
  then have "fst (makedirs_leaf fs name) = fs @ map (\<lambda>p. (p, Dir)) []"
    by (simp add: makedirs_leaf_def)
  then show ?thesis by blast
next
  case (Inr fs')
  then have "fst (makedirs_leaf fs name) = fs @ map (\<lambda>p. (p, Dir)) [name]"
    using mkdir_appends[OF Inr] by (simp add: makedirs_leaf_def)
  then show ?thesis by blast
qed

lemma makedirs_appends:
  "\<exists>ds. fst (makedirs fs name) = fs @ map (\<lambda>p. (p, Dir)) ds"
proof (induction fs name rule: makedirs.induct)
  case (1 fs name)
  let ?head = "fst (makedirs_parts name)" and ?tail = "snd (makedirs_parts name)"
  show ?case
  proof (cases "?head \<noteq> [] \<and> ?tail \<noteq> [] \<and> \<not> os_path_exists fs ?head")
    case False
    then have "makedirs fs name = makedirs_leaf fs name"
      by (subst makedirs.simps) auto
    then show ?thesis using makedirs_leaf_appends[of fs name] by simp
  next
    case True
    obtain fs1 r where rec: "makedirs fs ?head = (fs1, r)" by (cases "makedirs fs ?head")
    from "1.IH" True obtain ds where ds: "fs1 = fs @ map (\<lambda>p. (p, Dir)) ds"
      using rec by auto
    obtain ds2 where ds2: "fst (makedirs_leaf fs1 name) = fs1 @ map (\<lambda>p. (p, Dir)) ds2"
      using makedirs_leaf_appends[of fs1 name] by blast
    have "fst (makedirs fs name) = fs1 \<or> fst (makedirs fs name) = fst (makedirs_leaf fs1 name)"
      using True rec by (subst (1 2) makedirs.simps) (auto split: option.splits oserror.splits)
    then show ?thesis
    proof
      assume "fst (makedirs fs name) = fs1"
      then show ?thesis using ds by blast
    next
      assume "fst (makedirs fs name) = fst (makedirs_leaf fs1 name)"
      then have "fst (makedirs fs name) = fs @ map (\<lambda>p. (p, Dir)) (ds @ ds2)"
        using ds ds2 by simp
      then show ?thesis by blast
    qed
  qed
qed

lemma makedirs_leaf_isdir:
  assumes "snd (makedirs_leaf fs name) = None"
  shows "os_path_isdir (fst (makedirs_leaf fs name)) name"
proof (cases "mkdir fs name")
  case (Inl e)
  then show ?thesis using assms by (auto simp: makedirs_leaf_def split: if_splits)
next
  case (Inr fs')
  then have "fs' = fs @ [(name, Dir)]" "map_of fs name = None"
    using mkdir_appends[OF Inr] by (simp_all add: os_path_exists_def)
  then show ?thesis using Inr
    by (simp add: makedirs_leaf_def os_path_isdir_def map_add_def)
qed

lemma makedirs_isdir:
  assumes "snd (makedirs fs name) = None" "snd (makedirs_parts name) \<noteq> ''.''"
  shows "os_path_isdir (fst (makedirs fs name)) name"
proof -
  let ?head = "fst (makedirs_parts name)" and ?tail = "snd (makedirs_parts name)"
  show ?thesis
  proof (cases "?head \<noteq> [] \<and> ?tail \<noteq> [] \<and> \<not> os_path_exists fs ?head")
    case False
    then have "makedirs fs name = makedirs_leaf fs name"
      by (subst makedirs.simps) auto
    then show ?thesis using makedirs_leaf_isdir[of fs name] assms(1) by simp
  next
    case True
    obtain fs1 r where rec: "makedirs fs ?head = (fs1, r)" by (cases "makedirs fs ?head")
    have "makedirs fs name = makedirs_leaf fs1 name \<or> snd (makedirs fs name) \<noteq> None"
      using True rec assms(2)
      by (subst (1 2) makedirs.simps) (auto split: option.splits oserror.splits)
    then show ?thesis using makedirs_leaf_isdir[of fs1 name] assms(1) by auto
  qed
qed


section \<open>Runs of the merge script\<close>

lemma loop_no_headers:
  assumes "0 < n" "headers st = None"
  shows "frames (fold (merge_step fs) (enumerate n ps) st) = frames st
       \<and> headers (fold (merge_step fs) (enumerate n ps) st) = None
       \<and> (\<forall>p\<in>set ps. set (except_block p
                (case read_excel fs p of
                   Inl e \<Rightarrow> e
                 | Inr df \<Rightarrow> TypeError ''object of type 'NoneType' has no len()''))
              \<subseteq> set (printed (fold (merge_step fs) (enumerate n ps) st)))"
  using assms
proof (induction ps arbitrary: n st)
  case Nil
  then show ?case by simp
next
  case (Cons q ps)
  let ?st' = "merge_step fs (n, q) st"
  let ?e = "\<lambda>p. case read_excel fs p of
                   Inl e \<Rightarrow> e
                 | Inr df \<Rightarrow> TypeError ''object of type 'NoneType' has no len()''"
  have e: "?st' = st\<lparr>printed := printed st @ except_block q (?e q)\<rparr>"
    using merge_step_no_headers[OF Cons.prems, of fs q] .
  have h: "headers ?st' = None" and f: "frames ?st' = frames st"
    unfolding e using Cons.prems(2) by simp_all
  note ih = Cons.IH[of "Suc n" ?st', OF _ h]
  have "set (except_block q (?e q)) \<subseteq> set (printed ?st')" unfolding e by simp
  then have q: "set (except_block q (?e q))
       \<subseteq> set (printed (fold (merge_step fs) (enumerate (Suc n) ps) ?st'))"
    using printed_loop_mono[of ?st' fs "enumerate (Suc n) ps"] by blast
  show ?case using ih f q by auto
qed

lemma first_fails_loop:
  assumes "read_excel fs first = Inl e"
  shows "frames (merge_loop fs (first # others)) = []
       \<and> (\<forall>p\<in>set (first # others). set (except_block p
                (case read_excel fs p of
                   Inl e \<Rightarrow> e
                 | Inr df \<Rightarrow> TypeError ''object of type 'NoneType' has no len()''))
              \<subseteq> set (printed (merge_loop fs (first # others))))"
proof -
  let ?st0 = "\<lparr>frames = [], headers = None, printed = []\<rparr>"
  let ?st1 = "merge_step fs (0, first) ?st0"
  have s1: "?st1 = ?st0\<lparr>printed := printed ?st0 @ except_block first e\<rparr>"
    using assms by (simp add: merge_step_def try_body_def)
  have h: "headers ?st1 = None" and f: "frames ?st1 = []" unfolding s1 by simp_all
  note l = loop_no_headers[of 1 ?st1 fs others, OF _ h]
  have "set (except_block first e) \<subseteq> set (printed ?st1)" unfolding s1 by simp
  then have "set (except_block first e)
       \<subseteq> set (printed (fold (merge_step fs) (enumerate 1 others) ?st1))"
    using printed_loop_mono[of ?st1 fs "enumerate 1 others"] by blast
  then show ?thesis using l f assms by (auto simp: merge_loop_def)
qed

text \<open>The run once the arguments and the output directory are in place.\<close>

lemma script_after_makedirs:
  assumes "2 \<le> length (argv ev)"
    and "makedirs fs (target_dir_path ev) = (fs1, None)"
  shows "merge_excel_files_py ev fs =
     (case main ev fs1 [[]] of
        Inl ended \<Rightarrow> ended
      | Inr (fs2, out) \<Rightarrow> safe_shutdown 0 fs2 out)"
  using assms by (simp add: merge_excel_files_py_def)

lemma main_no_frames:
  assumes "files_to_merge_dir ev \<noteq> this_file_dir ev"
    and "fst (merge_excel_data_in_path fs (files_to_merge_dir ev)) = None"
  shows "main ev fs out =
     Inr (fs, out @ [''Looking for Excel files in given path to merge...\<newline>'']
               @ snd (merge_excel_data_in_path fs (files_to_merge_dir ev))
               @ [[], info ''No Excel files were found or successfully read.''])"
  using assms by (simp add: main_def Let_def)

lemma no_frames_run:
  assumes "2 \<le> length (argv ev)"
    and "makedirs fs (target_dir_path ev) = (fs1, None)"
    and "files_to_merge_dir ev \<noteq> this_file_dir ev"
    and "fst (merge_excel_data_in_path fs1 (files_to_merge_dir ev)) = None"
  shows "merge_excel_files_py ev fs =
     safe_shutdown 0 fs1
       ([[], ''Looking for Excel files in given path to merge...\<newline>'']
         @ snd (merge_excel_data_in_path fs1 (files_to_merge_dir ev))
         @ [[], info ''No Excel files were found or successfully read.''])"
  unfolding script_after_makedirs[OF assms(1,2)] main_no_frames[OF assms(3,4)] by simp

lemma merge_none_iff:
  "fst (merge_excel_data_in_path fs d) = None \<longleftrightarrow> frames (merge_loop fs (excel_files_sorted fs d)) = []"
  by (simp add: merge_excel_data_in_path_def Let_def)

lemma merge_printed:
  "snd (merge_excel_data_in_path fs d) = printed (merge_loop fs (excel_files_sorted fs d))"
  by (simp add: merge_excel_data_in_path_def Let_def)

text \<open>
  Claim C10. When the first file of the sorted list cannot be read, the canonical headers
  are never set. Every eligible file of the run then gets its error line: the first file
  and any later file that cannot be read with the message of its read error, every later
  file that can be read with the message of the \<open>TypeError\<close> that \<open>len(headers)\<close> raises on
  \<open>None\<close>. No frame is accumulated, nothing is written and the process exits with
  code 0.
\<close>

theorem C10_first_file_unreadable:
  assumes "2 \<le> length (argv ev)"
    and "makedirs fs (target_dir_path ev) = (fs1, None)"
    and "files_to_merge_dir ev \<noteq> this_file_dir ev"
    and "excel_files_sorted fs1 (files_to_merge_dir ev) = first # others"
    and "read_excel fs1 first = Inl e"
  shows "headers (merge_loop fs1 (first # others)) = None
     \<and> (\<forall>p\<in>set (first # others).
          ''(EE) Error while reading '' @ p @ '':\<newline>'' @ [CHR 0x09]
            @ (case read_excel fs1 p of
                 Inl e' \<Rightarrow> str_exn e'
               | Inr df \<Rightarrow> ''object of type 'NoneType' has no len()'')
            @ ''\<newline>''
          \<in> set (console (merge_excel_files_py ev fs)))
     \<and> fst (merge_excel_data_in_path fs1 (files_to_merge_dir ev)) = None
     \<and> files (merge_excel_files_py ev fs) = fs1
     \<and> uncaught (merge_excel_files_py ev fs) = None
     \<and> exit_code (merge_excel_files_py ev fs) = 0"
proof -
  let ?d = "files_to_merge_dir ev"
  let ?st0 = "\<lparr>frames = [], headers = None, printed = []\<rparr>"
  let ?e = "\<lambda>p. case read_excel fs1 p of
                   Inl e \<Rightarrow> e
                 | Inr df \<Rightarrow> TypeError ''object of type 'NoneType' has no len()''"
  note ff = first_fails_loop[OF assms(5), of others]
  have none: "fst (merge_excel_data_in_path fs1 ?d) = None"
    unfolding merge_none_iff assms(4) using ff by blast
  have out: "snd (merge_excel_data_in_path fs1 ?d) = printed (merge_loop fs1 (first # others))"
    unfolding merge_printed assms(4) by (rule refl)
  note run = no_frames_run[OF assms(1,2,3) none]
  have hd: "headers (merge_loop fs1 (first # others)) = None"
  proof -
    have "headers (merge_step fs1 (0, first) ?st0) = None"
      using merge_step_first_fail(2)[OF assms(5), of ?st0] by simp
    then show ?thesis by (simp add: merge_loop_def loop_headers_kept)
  qed
  have rep: "\<forall>p\<in>set (first # others).
          ''(EE) Error while reading '' @ p @ '':\<newline>'' @ [CHR 0x09]
            @ (case read_excel fs1 p of
                 Inl e' \<Rightarrow> str_exn e'
               | Inr df \<Rightarrow> ''object of type 'NoneType' has no len()'')
            @ ''\<newline>''
          \<in> set (console (merge_excel_files_py ev fs))"
  proof
    fix p assume "p \<in> set (first # others)"
    then have "set (except_block p (?e p)) \<subseteq> set (printed (merge_loop fs1 (first # others)))"
      using ff by blast
    then have "set (except_block p (?e p)) \<subseteq> set (console (merge_excel_files_py ev fs))"
      unfolding run out by (auto simp: safe_shutdown_def)
    from except_block_line[OF this]
    have l: "''(EE) Error while reading '' @ p @ '':\<newline>'' @ [CHR 0x09] @ str_exn (?e p) @ ''\<newline>''
        \<in> set (console (merge_excel_files_py ev fs))" .
    have m: "str_exn (?e p) = (case read_excel fs1 p of
                 Inl e' \<Rightarrow> str_exn e'
               | Inr df \<Rightarrow> ''object of type 'NoneType' has no len()'')"
      by (cases "read_excel fs1 p") simp_all
    show "''(EE) Error while reading '' @ p @ '':\<newline>'' @ [CHR 0x09]
            @ (case read_excel fs1 p of
                 Inl e' \<Rightarrow> str_exn e'
               | Inr df \<Rightarrow> ''object of type 'NoneType' has no len()'')
            @ ''\<newline>''
          \<in> set (console (merge_excel_files_py ev fs))"
      using l unfolding m .
  qed
  show ?thesis using hd rep none run by (simp add: safe_shutdown_def)
qed

theorem C10_first_file_unreadable_witness:
  "excel_files_sorted (fs_first_bad @ [(''/data/merged_excel_files'', Dir)]) ''/data''
      = [''/data/a.xlsx'', ''/data/b.xlsx'']
   \<and> ''(EE) Error while reading /data/a.xlsx:\<newline>'' @ [CHR 0x09]
        @ ''Excel file format cannot be determined, you must specify an engine manually.\<newline>''
        \<in> set (console (merge_excel_files_py env_data fs_first_bad))
   \<and> ''(EE) Error while reading /data/b.xlsx:\<newline>'' @ [CHR 0x09]
        @ ''object of type 'NoneType' has no len()\<newline>''
        \<in> set (console (merge_excel_files_py env_data fs_first_bad))
   \<and> files (merge_excel_files_py env_data fs_first_bad)
        = fs_first_bad @ [(''/data/merged_excel_files'', Dir)]
   \<and> exit_code (merge_excel_files_py env_data fs_first_bad) = 0"
proof -
  let ?fs1 = "fs_first_bad @ [(''/data/merged_excel_files'', Dir)]"
  let ?line = "\<lambda>p. ''(EE) Error while reading '' @ p @ '':\<newline>'' @ [CHR 0x09]
            @ (case read_excel ?fs1 p of
                 Inl e' \<Rightarrow> str_exn e'
               | Inr df \<Rightarrow> ''object of type 'NoneType' has no len()'')
            @ ''\<newline>''"
  have a: "2 \<le> length (argv env_data)" by code_simp
  have m: "makedirs fs_first_bad (target_dir_path env_data) = (?fs1, None)" by code_simp
  have g: "files_to_merge_dir env_data \<noteq> this_file_dir env_data" by code_simp
  have l: "excel_files_sorted ?fs1 (files_to_merge_dir env_data) = ''/data/a.xlsx'' # [''/data/b.xlsx'']"
    by code_simp
  have l': "excel_files_sorted ?fs1 ''/data'' = [''/data/a.xlsx'', ''/data/b.xlsx'']"
    by code_simp
  have r: "read_excel ?fs1 ''/data/a.xlsx'' =
      Inl (ValueError ''Excel file format cannot be determined, you must specify an engine manually.'')"
    by code_simp
  have la: "?line ''/data/a.xlsx'' = ''(EE) Error while reading /data/a.xlsx:\<newline>'' @ [CHR 0x09]
        @ ''Excel file format cannot be determined, you must specify an engine manually.\<newline>''"
    by code_simp
  have lb: "?line ''/data/b.xlsx'' = ''(EE) Error while reading /data/b.xlsx:\<newline>'' @ [CHR 0x09]
        @ ''object of type 'NoneType' has no len()\<newline>''"
    by code_simp
  note t = C10_first_file_unreadable[OF a m g l r]
  have ta: "?line ''/data/a.xlsx'' \<in> set (console (merge_excel_files_py env_data fs_first_bad))"
    using t by simp
  have tb: "?line ''/data/b.xlsx'' \<in> set (console (merge_excel_files_py env_data fs_first_bad))"
    using t by simp
  have tf: "files (merge_excel_files_py env_data fs_first_bad) = ?fs1"
    using t by blast
  have tx: "exit_code (merge_excel_files_py env_data fs_first_bad) = 0"
    using t by blast
  show ?thesis
    using ta tb tf tx l' unfolding la lb by blast
qed

text \<open>
  Claim C6 as it is written fails: a file that holds its header row only is read, so the
  list of frames is not empty although no file contributed a row, and both outputs are
  written.
\<close>

theorem C6_header_only_counterexample:
  "sum_list (map (row_count fs_header_only) (excel_files_sorted fs_header_only ''/data'')) = 0
   \<and> map_option rows (fst (merge_excel_data_in_path
          (fs_header_only @ [(''/data/merged_excel_files'', Dir)]) ''/data'')) = Some []
   \<and> os_path_isfile (files (merge_excel_files_py env_data fs_header_only))
        ''/data/merged_excel_files/merged_excel_data_20240131_0930.xlsx''
   \<and> os_path_isfile (files (merge_excel_files_py env_data fs_header_only))
        ''/data/merged_excel_files/merged_excel_data_20240131_0930.csv''
   \<and> info ''No Excel files were found or successfully read.''
        \<notin> set (console (merge_excel_files_py env_data fs_header_only))"
  by code_simp

text \<open>
  Claim C6, amended. When no file was read and accepted, so that the list of frames is
  empty, the run writes nothing, prints that no Excel files were found or successfully
  read, and exits with code 0.
\<close>

theorem C6_no_frames_no_output:
  assumes "2 \<le> length (argv ev)"
    and "makedirs fs (target_dir_path ev) = (fs1, None)"
    and "files_to_merge_dir ev \<noteq> this_file_dir ev"
    and "frames (merge_loop fs1 (excel_files_sorted fs1 (files_to_merge_dir ev))) = []"
  shows "files (merge_excel_files_py ev fs) = fs1
     \<and> info ''No Excel files were found or successfully read.''
          \<in> set (console (merge_excel_files_py ev fs))
     \<and> uncaught (merge_excel_files_py ev fs) = None
     \<and> exit_code (merge_excel_files_py ev fs) = 0"
proof -
  have none: "fst (merge_excel_data_in_path fs1 (files_to_merge_dir ev)) = None"
    unfolding merge_none_iff using assms(4) .
  show ?thesis
    unfolding no_frames_run[OF assms(1,2,3) none] by (simp add: safe_shutdown_def)
qed

theorem C6_no_frames_no_output_witness:
  "frames (merge_loop (fs_first_bad @ [(''/data/merged_excel_files'', Dir)])
       [''/data/a.xlsx'', ''/data/b.xlsx'']) = []
   \<and> files (merge_excel_files_py env_data fs_first_bad)
        = fs_first_bad @ [(''/data/merged_excel_files'', Dir)]
   \<and> info ''No Excel files were found or successfully read.''
        \<in> set (console (merge_excel_files_py env_data fs_first_bad))
   \<and> uncaught (merge_excel_files_py env_data fs_first_bad) = None
   \<and> exit_code (merge_excel_files_py env_data fs_first_bad) = 0"
proof -
  let ?fs1 = "fs_first_bad @ [(''/data/merged_excel_files'', Dir)]"
  have a: "2 \<le> length (argv env_data)" by code_simp
  have m: "makedirs fs_first_bad (target_dir_path env_data) = (?fs1, None)" by code_simp
  have g: "files_to_merge_dir env_data \<noteq> this_file_dir env_data" by code_simp
  have l: "excel_files_sorted ?fs1 (files_to_merge_dir env_data) = [''/data/a.xlsx'', ''/data/b.xlsx'']"
    by code_simp
  have f: "frames (merge_loop ?fs1 (excel_files_sorted ?fs1 (files_to_merge_dir env_data))) = []"
    by code_simp
  show ?thesis
    using C6_no_frames_no_output[OF a m g f] f unfolding l by simp
qed

lemma regular_files_append_dirs:
  "regular_files (fs @ map (\<lambda>p. (p, Dir)) ds) = regular_files fs"
  by (simp add: regular_files_def filter_empty_conv)

lemma makedirs_regular_files: "regular_files (fst (makedirs fs name)) = regular_files fs"
  using makedirs_appends[of fs name] regular_files_append_dirs by metis




lemma target_leaf: "snd (makedirs_parts (target_dir_path ev)) = ''merged_excel_files''"
proof -
  have "os_path_basename (target_dir_path ev) = ''merged_excel_files''"
    unfolding target_dir_path_def by (rule basename_join) simp
  then show ?thesis
    by (simp add: makedirs_parts_def os_path_basename_def)
qed

lemma script_makedirs_fails:
  assumes "2 \<le> length (argv ev)" and "snd (makedirs fs (target_dir_path ev)) = Some os_err"
  shows "merge_excel_files_py ev fs =
     safe_shutdown 1 (fst (makedirs fs (target_dir_path ev)))
       [''Error creating directory '' @ quoted (target_dir_path ev) @ '':\<newline>'' @ [CHR 0x09]
          @ str_oserror os_err]"
  using assms by (cases "makedirs fs (target_dir_path ev)") (simp add: merge_excel_files_py_def)


lemma script_self_directory:
  assumes "2 \<le> length (argv ev)" and "makedirs fs (target_dir_path ev) = (fs1, None)"
    and "files_to_merge_dir ev = this_file_dir ev"
  shows "merge_excel_files_py ev fs =
     safe_shutdown 1 fs1
       [[], ''Looking for Excel files in given path to merge...\<newline>'',
        error ''Error: Path same as script file path. Use a subfolder for files to be merged.'']"
  unfolding script_after_makedirs[OF assms(1,2)] using assms(3) by (simp add: main_def Let_def)




text \<open>
  Claim C8 as stated fails. The output directory is created at module level, before
  \<open>main\<close> and its guard run: a run on the directory of the script exits with code 1,
  but \<open>merged_excel_files\<close> has been created there.
\<close>

theorem C8_directory_created_counterexample:
  "files_to_merge_dir env_self = this_file_dir env_self
   \<and> exit_code (merge_excel_files_py env_self fs_tools) = 1
   \<and> \<not> os_path_exists fs_tools ''/opt/tools/merged_excel_files''
   \<and> os_path_isdir (files (merge_excel_files_py env_self fs_tools)) ''/opt/tools/merged_excel_files''
   \<and> files (merge_excel_files_py env_self fs_tools) \<noteq> fs_tools"
  by code_simp

text \<open>
  Claim C8, amended. When the input directory is the directory of the script, the run exits
  with code 1 and writes no regular file; the file system it leaves is the one
  \<open>os.makedirs\<close> of the output directory left, so that, when that call succeeded,
  \<open>merged_excel_files\<close> exists as a directory and the console holds the guard's line
  with the EE prefix.
\<close>

theorem C8_self_directory_guard:
  assumes "2 \<le> length (argv ev)"
    and "files_to_merge_dir ev = this_file_dir ev"
  shows "exit_code (merge_excel_files_py ev fs) = 1
     \<and> files (merge_excel_files_py ev fs) = fst (makedirs fs (target_dir_path ev))
     \<and> regular_files (files (merge_excel_files_py ev fs)) = regular_files fs
     \<and> (snd (makedirs fs (target_dir_path ev)) = None \<longrightarrow>
          os_path_isdir (files (merge_excel_files_py ev fs)) (target_dir_path ev)
        \<and> console (merge_excel_files_py ev fs) =
            [[], ''Looking for Excel files in given path to merge...\<newline>'',
             ''(EE) Error: Path same as script file path. Use a subfolder for files to be merged.'',
             []])"
proof -
  let ?m = "makedirs fs (target_dir_path ev)"
  have guard: "merge_excel_files_py ev fs =
     safe_shutdown 1 (fst ?m)
       [[], ''Looking for Excel files in given path to merge...\<newline>'',
        ''(EE) Error: Path same as script file path. Use a subfolder for files to be merged.'']"
    if "snd ?m = None"
  proof -
    have "?m = (fst ?m, None)" using that by (metis prod.collapse)
    from script_self_directory[OF assms(1) this assms(2)] show ?thesis by (simp add: error_def)
  qed
  have fails: "merge_excel_files_py ev fs =
     safe_shutdown 1 (fst ?m)
       [''Error creating directory '' @ quoted (target_dir_path ev) @ '':\<newline>'' @ [CHR 0x09]
          @ str_oserror os_err]"
    if "snd ?m = Some os_err" for os_err
    using script_makedirs_fails[OF assms(1) that] .
  have code: "exit_code (merge_excel_files_py ev fs) = 1"
    and fs': "files (merge_excel_files_py ev fs) = fst ?m"
  proof -
    show "exit_code (merge_excel_files_py ev fs) = 1"
    proof (cases "snd ?m")
      case None
      then show ?thesis unfolding guard[OF None] by (simp add: safe_shutdown_def error_def info_def)
    next
      case (Some os_err)
      then show ?thesis unfolding fails[OF Some] by (simp add: safe_shutdown_def error_def info_def)
    qed
    show "files (merge_excel_files_py ev fs) = fst ?m"
    proof (cases "snd ?m")
      case None
      then show ?thesis unfolding guard[OF None] by (simp add: safe_shutdown_def error_def info_def)
    next
      case (Some os_err)
      then show ?thesis unfolding fails[OF Some] by (simp add: safe_shutdown_def error_def info_def)
    qed
  qed
  have reg: "regular_files (files (merge_excel_files_py ev fs)) = regular_files fs"
    unfolding fs' by (rule makedirs_regular_files)
  have ok: "os_path_isdir (files (merge_excel_files_py ev fs)) (target_dir_path ev)
        \<and> console (merge_excel_files_py ev fs) =
            [[], ''Looking for Excel files in given path to merge...\<newline>'',
             ''(EE) Error: Path same as script file path. Use a subfolder for files to be merged.'',
             []]"
    if n: "snd ?m = None"
  proof -
    have "os_path_isdir (fst ?m) (target_dir_path ev)"
      using makedirs_isdir[OF n] by (simp add: target_leaf)
    then show ?thesis unfolding guard[OF n] by (simp add: safe_shutdown_def error_def info_def)
  qed
  show ?thesis using code fs' reg ok by blast
qed

theorem C8_self_directory_guard_witness:
  "exit_code (merge_excel_files_py env_self fs_tools) = 1
   \<and> regular_files (files (merge_excel_files_py env_self fs_tools)) = regular_files fs_tools
   \<and> os_path_isdir (files (merge_excel_files_py env_self fs_tools)) (target_dir_path env_self)
   \<and> target_dir_path env_self = ''/opt/tools/merged_excel_files''"
proof -
  have a: "2 \<le> length (argv env_self)" by code_simp
  have g: "files_to_merge_dir env_self = this_file_dir env_self" by code_simp
  have m: "snd (makedirs fs_tools (target_dir_path env_self)) = None" by code_simp
  have t: "target_dir_path env_self = ''/opt/tools/merged_excel_files''" by code_simp
  note th = C8_self_directory_guard[OF a g, of fs_tools]
  have c1: "exit_code (merge_excel_files_py env_self fs_tools) = 1" using th by blast
  have c2: "regular_files (files (merge_excel_files_py env_self fs_tools)) = regular_files fs_tools"
    using th by blast
  have c3: "os_path_isdir (files (merge_excel_files_py env_self fs_tools)) (target_dir_path env_self)"
    using th m by blast
  show ?thesis using c1 c2 c3 t by blast
qed

section \<open>Runs of the split script\<close>









section \<open>The split of a workbook\<close>











end
